theory Spec2Isabelle
  imports Main "HOL-Library.Sublist"
begin

section \<open>Python values shared by the four scripts\<close>

text \<open>
  The repository is glue code around two libraries (pypdf and RDKit), the interpreter's
  built-ins (\<^verbatim>\<open>int\<close>, \<^verbatim>\<open>str.lstrip\<close>, \<^verbatim>\<open>print\<close>) and the
  file system. The scripts are embedded function by function. What a library call does is
  not part of the repository, so every library is a record of functions that the embedded
  code takes as a parameter; the theorems hold for every library behaviour.

  An \<open>exn\<close> is an instance of Python's \<^verbatim>\<open>Exception\<close>: its class and its
  message (\<^verbatim>\<open>str(e)\<close>). These are the values \<^verbatim>\<open>except Exception\<close> catches.
\<close>

datatype exn_class =
  ValueError | AttributeError | FileNotFoundError | FileExistsError
  | NotADirectoryError | IsADirectoryError | LibraryError

datatype exn = Exn exn_class string


fun exn_class_of :: "exn \<Rightarrow> exn_class" where
  "exn_class_of (Exn c m) = c"

text \<open>
  A call that mutates its receiver in place returns the receiver as the call left it,
  together with the exception it raised, if any. \<^verbatim>\<open>try: ... except Exception: pass\<close>
  around such a call keeps the state and drops the exception.
\<close>

type_synonym 's attempt = "'s \<times> exn option"

definition except_pass :: "'s attempt \<Rightarrow> 's" where
  "except_pass r = (case r of (s, None) \<Rightarrow> s | (s, Some e) \<Rightarrow> s)"

text \<open>
  How a process ends: \<^verbatim>\<open>sys.exit(n)\<close> (or \<^verbatim>\<open>raise SystemExit(n)\<close>), or an
  exception nobody caught. The interpreter turns an uncaught exception into a traceback
  and exit status 1. \<open>stdout\<close> and \<open>stderr\<close> hold what the script's own
  \<^verbatim>\<open>print\<close> calls wrote, one entry per call; the interpreter's traceback is not
  recorded.
\<close>

datatype outcome = Exit int | Uncaught exn

fun exit_status :: "outcome \<Rightarrow> int" where
  "exit_status (Exit n) = n"
| "exit_status (Uncaught e) = 1"

record process =
  status :: outcome
  stdout :: "string list"
  stderr :: "string list"

subsection \<open>Strings\<close>


definition int_space :: "char \<Rightarrow> bool" where
  "int_space c = (let n = (of_char c :: nat) in
     (9 \<le> n \<and> n \<le> 13) \<or> n = 32 \<or> n = 133 \<or> n = 160)"



definition isdigit :: "char \<Rightarrow> bool" where
  "isdigit c = (let n = (of_char c :: nat) in 48 \<le> n \<and> n \<le> 57)"

definition digit_value :: "char \<Rightarrow> nat" where
  "digit_value c = of_char c - 48"

text \<open>
  The digits of a base-10 literal: at least one digit, with single underscores allowed
  between digits only. The flag says whether the previous character was a digit.
\<close>

fun int_digits :: "nat \<Rightarrow> bool \<Rightarrow> string \<Rightarrow> nat option" where
  "int_digits acc prev [] = (if prev then Some acc else None)"
| "int_digits acc prev (c # cs) =
     (if isdigit c then int_digits (10 * acc + digit_value c) True cs
      else if c = CHR ''_'' \<and> prev then int_digits acc False cs
      else None)"

text \<open>
  \<^verbatim>\<open>int(s)\<close> for a string: surrounding white space is dropped, one sign is allowed,
  anything else raises \<^verbatim>\<open>ValueError\<close>. (The interpreter's message also quotes the
  argument; it is shortened here. Numerals are taken to be within the interpreter's
  digit limit.)
\<close>

definition py_int :: "string \<Rightarrow> exn + int" where
  "py_int s =
     (let t = rev (dropWhile int_space (rev (dropWhile int_space s)));
          invalid = Inl (Exn ValueError ''invalid literal for int() with base 10'')
      in case t of
           [] \<Rightarrow> invalid
         | c # cs \<Rightarrow>
             if c = CHR ''-'' then
               (case int_digits 0 False cs of None \<Rightarrow> invalid | Some n \<Rightarrow> Inr (- int n))
             else if c = CHR ''+'' then
               (case int_digits 0 False cs of None \<Rightarrow> invalid | Some n \<Rightarrow> Inr (int n))
             else
               (case int_digits 0 False t of None \<Rightarrow> invalid | Some n \<Rightarrow> Inr (int n)))"

section \<open>The renderer: server/chem/render.py\<close>







section \<open>The HTTP service: python/rdkit\_service/main.py\<close>




section \<open>The file system\<close>

text \<open>
  The part of the host's file system the two compressors touch. A path is the list of
  its components below one root, which always exists: \<^verbatim>\<open>Path(s)\<close> splits at
  \<^verbatim>\<open>/\<close> and drops empty and \<^verbatim>\<open>.\<close> components, as pathlib does (symbolic links,
  \<^verbatim>\<open>..\<close> and permissions are not modelled). A node is a directory or a file with
  its bytes.
\<close>

type_synonym path = "string list"

datatype node = Dir | File string

type_synonym filesystem = "path \<Rightarrow> node option"

fun split_on :: "char \<Rightarrow> string \<Rightarrow> string list" where
  "split_on d [] = [[]]"
| "split_on d (c # cs) =
     (if c = d then [] # split_on d cs
      else (case split_on d cs of [] \<Rightarrow> [[c]] | w # ws \<Rightarrow> (c # w) # ws))"

definition Path :: "string \<Rightarrow> path" where
  "Path s = filter (\<lambda>c. c \<noteq> [] \<and> c \<noteq> ''.'') (split_on (CHR ''/'') s)"

text \<open>
  \<^verbatim>\<open>str(Path(s))\<close>: the components joined again behind the root, which is
  \<^verbatim>\<open>//\<close> for exactly two leading slashes and \<^verbatim>\<open>/\<close> for any other number;
  the empty relative path is \<^verbatim>\<open>.\<close>.
\<close>

fun join :: "string \<Rightarrow> string list \<Rightarrow> string" where
  "join sep [] = []"
| "join sep [x] = x"
| "join sep (x # y # ys) = x @ sep @ join sep (y # ys)"

definition path_str :: "string \<Rightarrow> string" where
  "path_str s =
     (let parts = Path s;
          slashes = length (takeWhile (\<lambda>c. c = CHR ''/'') s);
          root = (if slashes = 0 then [] else if slashes = 2 then ''//'' else ''/'')
      in if root = [] \<and> parts = [] then ''.'' else root @ join ''/'' parts)"

definition parent :: "path \<Rightarrow> path" where
  "parent p = butlast p"

definition is_dir :: "filesystem \<Rightarrow> path \<Rightarrow> bool" where
  "is_dir fs p = (p = [] \<or> fs p = Some Dir)"

text \<open>
  \<^verbatim>\<open>p.mkdir(parents=True, exist_ok=True)\<close>: every prefix of \<open>p\<close>, shortest first, is
  kept if it is a directory and created if it is absent; a prefix that is a file makes
  the call raise (\<^verbatim>\<open>FileExistsError\<close> for \<open>p\<close> itself, \<^verbatim>\<open>NotADirectoryError\<close>
  for a proper prefix). Directories created before the failure stay.
\<close>

fun mkdirs :: "filesystem \<Rightarrow> path list \<Rightarrow> filesystem attempt" where
  "mkdirs fs [] = (fs, None)"
| "mkdirs fs (q # qs) =
     (if is_dir fs q then mkdirs fs qs
      else case fs q of
             Some n \<Rightarrow>
               (fs, Some (if qs = [] then Exn FileExistsError ''File exists''
                          else Exn NotADirectoryError ''Not a directory''))
           | None \<Rightarrow> mkdirs (fs(q \<mapsto> Dir)) qs)"

definition mkdir_parents :: "filesystem \<Rightarrow> path \<Rightarrow> filesystem attempt" where
  "mkdir_parents fs p = mkdirs fs (prefixes p)"

text \<open>
  Opening the normalised path \<open>p\<close> for writing, as \<^verbatim>\<open>Path.open("wb")\<close> does:
  it raises when \<open>p\<close> is a directory or when its parent is not one; otherwise the file
  exists afterwards and is empty.
\<close>

definition open_wb :: "filesystem \<Rightarrow> path \<Rightarrow> exn + filesystem" where
  "open_wb fs p =
     (if is_dir fs p then Inl (Exn IsADirectoryError ''Is a directory'')
      else if \<not> is_dir fs (parent p) then
        (case fs (parent p) of
           Some n \<Rightarrow> Inl (Exn NotADirectoryError ''Not a directory'')
         | None \<Rightarrow> Inl (Exn FileNotFoundError ''No such file or directory''))
      else Inr (fs(p \<mapsto> File [])))"

text \<open>
  The built-in \<^verbatim>\<open>open(s, 'wb')\<close> receives the string as typed, and the host resolves
  it: the empty string names nothing (\<^verbatim>\<open>FileNotFoundError\<close>); a string whose last
  component is \<^verbatim>\<open>.\<close>, or which has no component at all, names a directory that must
  exist and cannot be opened for writing; a string with a trailing slash asks for a
  directory and raises as well (\<^verbatim>\<open>IsADirectoryError\<close> when its parent is a
  directory). Every other string is opened at its normalised path.
\<close>

definition raw_last :: "string \<Rightarrow> string" where
  "raw_last s = (case filter (\<lambda>c. c \<noteq> []) (split_on (CHR ''/'') s) of
                   [] \<Rightarrow> [] | c # cs \<Rightarrow> last (c # cs))"

definition trailing_slash :: "string \<Rightarrow> bool" where
  "trailing_slash s = (s \<noteq> [] \<and> last s = CHR ''/'')"

definition builtin_open_wb :: "filesystem \<Rightarrow> string \<Rightarrow> exn + filesystem" where
  "builtin_open_wb fs s =
     (let p = Path s in
      if s = [] then Inl (Exn FileNotFoundError ''No such file or directory'')
      else if raw_last s = ''.'' \<or> p = [] then
        (if is_dir fs p then Inl (Exn IsADirectoryError ''Is a directory'')
         else case fs p of
                Some n \<Rightarrow> Inl (Exn NotADirectoryError ''Not a directory'')
              | None \<Rightarrow> Inl (Exn FileNotFoundError ''No such file or directory''))
      else if trailing_slash s then
        (if is_dir fs (parent p) then Inl (Exn IsADirectoryError ''Is a directory'')
         else case fs (parent p) of
                Some n \<Rightarrow> Inl (Exn NotADirectoryError ''Not a directory'')
              | None \<Rightarrow> Inl (Exn FileNotFoundError ''No such file or directory''))
      else open_wb fs p)"

section \<open>The PDF library\<close>

text \<open>
  A document in memory is its page sequence and its other objects (outline, metadata).
  Enumerating \<^verbatim>\<open>writer.pages\<close> of a loaded document yields this list and does not
  fail. The pypdf calls the scripts make:
  \<^item> \<open>PdfReader\<close>: \<^verbatim>\<open>PdfReader(path)\<close> with its \<^verbatim>\<open>pages\<close>, the parsed source;
  \<^item> \<open>clone_from\<close>: \<^verbatim>\<open>PdfWriter(clone_from=path)\<close>;
  \<^item> \<open>writer_compress_content_streams\<close>: \<^verbatim>\<open>writer.compress_content_streams()\<close>;
  \<^item> \<open>page_compress_content_streams\<close>: \<^verbatim>\<open>page.compress_content_streams(level=n)\<close>;
  \<^item> \<open>page_images\<close>: reading \<^verbatim>\<open>page.images\<close> (\<open>Inl\<close>: the attribute access
    raised) and iterating it (the images it yields, then the exception that ended the
    iteration, if any);
  \<^item> \<open>img_replace\<close>: \<^verbatim>\<open>img.replace(img.image, quality=q)\<close>, which changes the page
    that owns the image;
  \<^item> \<open>compress_identical_objects\<close>: the call of line 36 of pdf\_compress.py;
  \<^item> \<open>writer_write\<close>: \<^verbatim>\<open>writer.write(f)\<close>, the bytes that reached the file and
    the exception raised, if any.
\<close>

record ('page, 'obj) document =
  pages :: "'page list"
  others :: "'obj list"

record ('page, 'img, 'obj) pypdf =
  PdfReader :: "string \<Rightarrow> exn + 'page list"
  clone_from :: "string \<Rightarrow> exn + ('page, 'obj) document"
  writer_compress_content_streams ::
    "('page, 'obj) document \<Rightarrow> ('page, 'obj) document attempt"
  page_compress_content_streams :: "'page \<Rightarrow> int \<Rightarrow> 'page attempt"
  page_images :: "'page \<Rightarrow> exn + ('img list \<times> exn option)"
  img_replace :: "'page \<Rightarrow> 'img \<Rightarrow> int \<Rightarrow> 'page attempt"
  compress_identical_objects :: "('page, 'obj) document \<Rightarrow> ('page, 'obj) document attempt"
  writer_write :: "('page, 'obj) document \<Rightarrow> string attempt"

text \<open>\<^verbatim>\<open>PdfWriter()\<close> is the empty document; \<^verbatim>\<open>add_page\<close> appends at the end.\<close>

definition PdfWriter :: "('page, 'obj) document" where
  "PdfWriter = \<lparr>pages = [], others = []\<rparr>"

definition add_page :: "('page, 'obj) document \<Rightarrow> 'page \<Rightarrow> ('page, 'obj) document" where
  "add_page writer page = writer\<lparr>pages := pages writer @ [page]\<rparr>"

text \<open>
  Lines 42 and 43 of pdf\_compress.py: \<^verbatim>\<open>with dst.open("wb") as f: writer.write(f)\<close>.
\<close>

definition write_to ::
  "('page, 'img, 'obj) pypdf \<Rightarrow> filesystem \<Rightarrow> path \<Rightarrow> ('page, 'obj) document
     \<Rightarrow> filesystem \<times> (exn + unit)" where
  "write_to L fs p writer =
     (case open_wb fs p of
        Inl e \<Rightarrow> (fs, Inl e)
      | Inr fs1 \<Rightarrow>
          (case writer_write L writer of
             (bytes, None) \<Rightarrow> (fs1(p \<mapsto> File bytes), Inr ())
           | (bytes, Some e) \<Rightarrow> (fs1(p \<mapsto> File bytes), Inl e)))"

section \<open>The basic compressor: scripts/compress\_pdf.py\<close>

text \<open>
  Lines 20 and 21 of compress\_pdf.py:
  \<^verbatim>\<open>with open(output_path, 'wb') as out_f: writer.write(out_f)\<close>, on the string as given.
\<close>

definition write_to_raw ::
  "('page, 'img, 'obj) pypdf \<Rightarrow> filesystem \<Rightarrow> string \<Rightarrow> ('page, 'obj) document
     \<Rightarrow> filesystem \<times> (exn + unit)" where
  "write_to_raw L fs output_path writer =
     (case builtin_open_wb fs output_path of
        Inl e \<Rightarrow> (fs, Inl e)
      | Inr fs1 \<Rightarrow>
          (case writer_write L writer of
             (bytes, None) \<Rightarrow> (fs1(Path output_path \<mapsto> File bytes), Inr ())
           | (bytes, Some e) \<Rightarrow> (fs1(Path output_path \<mapsto> File bytes), Inl e)))"

fun add_pages :: "('page, 'obj) document \<Rightarrow> 'page list \<Rightarrow> ('page, 'obj) document" where
  "add_pages writer [] = writer"
| "add_pages writer (page # rest) = add_pages (add_page writer page) rest"

definition compress_pdf_basic ::
  "('page, 'img, 'obj) pypdf \<Rightarrow> filesystem \<Rightarrow> string \<Rightarrow> string
     \<Rightarrow> filesystem \<times> (exn + unit)" where
  "compress_pdf_basic L fs input_path output_path =
     (case PdfReader L input_path of
        Inl e \<Rightarrow> (fs, Inl e)
      | Inr reader_pages \<Rightarrow>
          (let writer = add_pages PdfWriter reader_pages;
               writer1 = except_pass (writer_compress_content_streams L writer)
           in write_to_raw L fs output_path writer1))"

definition usage_basic :: string where
  "usage_basic = ''Usage: compress_pdf.py <input.pdf> <output.pdf>''"

text \<open>\<^verbatim>\<open>main()\<close> of compress\_pdf.py, run as the script runs it.\<close>

definition main_basic ::
  "('page, 'img, 'obj) pypdf \<Rightarrow> string list \<Rightarrow> filesystem \<Rightarrow> process \<times> filesystem" where
  "main_basic L argv fs =
     (if length argv \<noteq> 3 then
        (\<lparr>status = Exit 1, stdout = [], stderr = [usage_basic]\<rparr>, fs)
      else
        case compress_pdf_basic L fs (argv ! 1) (argv ! 2) of
          (fs1, Inl e) \<Rightarrow> (\<lparr>status = Uncaught e, stdout = [], stderr = []\<rparr>, fs1)
        | (fs1, Inr u) \<Rightarrow> (\<lparr>status = Exit 0, stdout = [], stderr = []\<rparr>, fs1))"

section \<open>The extended compressor: python/rdkit\_service/pdf\_compress.py\<close>

text \<open>Lines 15 to 19: each page's attempt sits in its own \<^verbatim>\<open>try\<close>.\<close>

fun compress_pages :: "('page, 'img, 'obj) pypdf \<Rightarrow> 'page list \<Rightarrow> 'page list" where
  "compress_pages L [] = []"
| "compress_pages L (page # rest) =
     except_pass (page_compress_content_streams L page 9) # compress_pages L rest"

text \<open>
  Lines 25 to 30 for the images one page yielded (\<^verbatim>\<open>int(image_quality)\<close> of an
  integer is that integer).
\<close>

fun replace_images :: "('page, 'img, 'obj) pypdf \<Rightarrow> int \<Rightarrow> 'page \<Rightarrow> 'img list \<Rightarrow> 'page" where
  "replace_images L q page [] = page"
| "replace_images L q page (img # imgs) =
     replace_images L q (except_pass (img_replace L page img q)) imgs"

text \<open>
  \<^verbatim>\<open>getattr(page, "images", [])\<close>: an \<^verbatim>\<open>AttributeError\<close> from the attribute
  access gives the default, any other exception passes through.
\<close>

definition getattr_images ::
  "('page, 'img, 'obj) pypdf \<Rightarrow> 'page \<Rightarrow> exn + ('img list \<times> exn option)" where
  "getattr_images L page =
     (case page_images L page of
        Inl e \<Rightarrow> (if exn_class_of e = AttributeError then Inr ([], None) else Inl e)
      | Inr r \<Rightarrow> Inr r)"

text \<open>
  Lines 24 to 30: the loop over the pages inside the outer \<^verbatim>\<open>try\<close>. An exception of
  the enumeration leaves the loop; the pages after it are not visited.
\<close>

fun recompress_pages ::
  "('page, 'img, 'obj) pypdf \<Rightarrow> int \<Rightarrow> 'page list \<Rightarrow> 'page list attempt" where
  "recompress_pages L q [] = ([], None)"
| "recompress_pages L q (page # rest) =
     (case getattr_images L page of
        Inl e \<Rightarrow> (page # rest, Some e)
      | Inr (imgs, raised) \<Rightarrow>
          (let page1 = replace_images L q page imgs in
           case raised of
             Some e \<Rightarrow> (page1 # rest, Some e)
           | None \<Rightarrow>
               (case recompress_pages L q rest of
                  (rest1, r) \<Rightarrow> (page1 # rest1, r))))"

text \<open>Lines 12 to 39: the stages between loading and writing.\<close>

definition compress_stages ::
  "('page, 'img, 'obj) pypdf \<Rightarrow> bool \<Rightarrow> int option \<Rightarrow> ('page, 'obj) document
     \<Rightarrow> ('page, 'obj) document" where
  "compress_stages L lossless image_quality writer =
     (let writer1 = (if lossless then writer\<lparr>pages := compress_pages L (pages writer)\<rparr>
                     else writer);
          writer2 = (case image_quality of
                       None \<Rightarrow> writer1
                     | Some q \<Rightarrow>
                         writer1\<lparr>pages := except_pass (recompress_pages L q (pages writer1))\<rparr>)
      in except_pass (compress_identical_objects L writer2))"

definition compress_pdf_extended ::
  "('page, 'img, 'obj) pypdf \<Rightarrow> filesystem \<Rightarrow> string \<Rightarrow> string \<Rightarrow> bool \<Rightarrow> int option
     \<Rightarrow> filesystem \<times> (exn + unit)" where
  "compress_pdf_extended L fs input_path output_path lossless image_quality =
     (let src = path_str input_path; dst = Path output_path in
      case clone_from L src of
        Inl e \<Rightarrow> (fs, Inl e)
      | Inr writer \<Rightarrow>
          (let writer3 = compress_stages L lossless image_quality writer in
           case mkdir_parents fs (parent dst) of
             (fs1, Some e) \<Rightarrow> (fs1, Inl e)
           | (fs1, None) \<Rightarrow> write_to L fs1 dst writer3))"

definition usage_extended :: string where
  "usage_extended = ''Usage: python pdf_compress.py <input.pdf> <output.pdf> [image_quality]''"

text \<open>
  \<^verbatim>\<open>main()\<close> of pdf\_compress.py with \<^verbatim>\<open>raise SystemExit(main())\<close>. The usage
  line goes to standard output.
\<close>

definition main_extended ::
  "('page, 'img, 'obj) pypdf \<Rightarrow> string list \<Rightarrow> filesystem \<Rightarrow> process \<times> filesystem" where
  "main_extended L argv fs =
     (if length argv < 3 then
        (\<lparr>status = Exit 2, stdout = [usage_extended], stderr = []\<rparr>, fs)
      else
        let input_pdf = argv ! 1; output_pdf = argv ! 2 in
        case (if length argv > 3 then map_sum id Some (py_int (argv ! 3)) else Inr None) of
          Inl e \<Rightarrow> (\<lparr>status = Uncaught e, stdout = [], stderr = []\<rparr>, fs)
        | Inr quality \<Rightarrow>
            (case compress_pdf_extended L fs input_pdf output_pdf True quality of
               (fs1, Inl e) \<Rightarrow> (\<lparr>status = Uncaught e, stdout = [], stderr = []\<rparr>, fs1)
             | (fs1, Inr u) \<Rightarrow> (\<lparr>status = Exit 0, stdout = [], stderr = []\<rparr>, fs1)))"

section \<open>Destinations and sample libraries\<close>

text \<open>
  A destination can be created when it is not a directory and no prefix of its parent is
  a file (the root always is a directory).
\<close>

definition creatable :: "filesystem \<Rightarrow> path \<Rightarrow> bool" where
  "creatable fs p =
     (\<not> is_dir fs p \<and>
      list_all (\<lambda>q. q = [] \<or> fs q = None \<or> fs q = Some Dir) (prefixes (parent p)))"


text \<open>
  A sample pypdf: one source of three pages; the second page cannot be compressed, the
  first image of a page cannot be re-encoded, the second page has no \<^verbatim>\<open>images\<close>
  attribute, and neither whole-document call exists in this version.
\<close>

definition sample_pypdf :: "(string, nat, string) pypdf" where
  "sample_pypdf =
     \<lparr>PdfReader = (\<lambda>p. if p = ''in.pdf'' then Inr [''one'', ''two'', ''three'']
                       else Inl (Exn FileNotFoundError ''No such file or directory'')),
      clone_from = (\<lambda>p. if p = ''in.pdf''
                        then Inr \<lparr>pages = [''one'', ''two'', ''three''], others = [''outline'']\<rparr>
                        else Inl (Exn FileNotFoundError ''No such file or directory'')),
      writer_compress_content_streams =
        (\<lambda>w. (w, Some (Exn AttributeError ''compress_content_streams''))),
      page_compress_content_streams =
        (\<lambda>p n. if p = ''two'' then (p, Some (Exn LibraryError ''bad stream''))
                else (''z'' @ p, None)),
      page_images = (\<lambda>p. if p = ''zone'' then Inr ([0, 1], None)
                         else if p = ''two'' then Inl (Exn AttributeError ''images'')
                         else Inr ([], None)),
      img_replace = (\<lambda>p i q. if i = 0 then (p, Some (Exn LibraryError ''no codec''))
                              else (p @ ''q'', None)),
      compress_identical_objects =
        (\<lambda>w. (w, Some (Exn AttributeError ''compress_identical_objects''))),
      writer_write = (\<lambda>w. (concat (pages w), None))\<rparr>"

section \<open>Auxiliary facts\<close>

lemma except_pass_fst: "except_pass r = fst r"
  by (cases r) (simp add: except_pass_def split: option.split)

lemma add_pages_append: "add_pages w ps = w\<lparr>pages := pages w @ ps\<rparr>"
  by (induction ps arbitrary: w) (simp_all add: add_page_def)

lemma add_pages_PdfWriter: "add_pages PdfWriter ps = \<lparr>pages = ps, others = []\<rparr>"
  by (simp add: add_pages_append PdfWriter_def)

lemma py_int_ValueError: "py_int s = Inl e \<Longrightarrow> exn_class_of e = ValueError"
  by (auto simp: py_int_def Let_def split: list.splits if_splits option.splits)

lemma mkdirs_other: "q \<notin> set qs \<Longrightarrow> fst (mkdirs fs qs) q = fs q"
  by (induction qs arbitrary: fs) (auto split: option.splits)

lemma mkdirs_keeps_dir: "fs q = Some Dir \<Longrightarrow> fst (mkdirs fs qs) q = Some Dir"
  by (induction qs arbitrary: fs) (auto split: option.splits)

lemma mkdirs_keeps_is_dir: "is_dir fs q \<Longrightarrow> is_dir (fst (mkdirs fs qs)) q"
  by (auto simp: is_dir_def mkdirs_keeps_dir)

lemma mkdirs_ok:
  "\<forall>q\<in>set qs. q = [] \<or> fs q = None \<or> fs q = Some Dir \<Longrightarrow>
   snd (mkdirs fs qs) = None \<and> (\<forall>q\<in>set qs. is_dir (fst (mkdirs fs qs)) q)"
proof (induction qs arbitrary: fs)
  case Nil
  then show ?case by simp
next
  case (Cons a qs)
  show ?case
  proof (cases "is_dir fs a")
    case True
    with Cons show ?thesis by (auto simp: mkdirs_keeps_is_dir)
  next
    case False
    with Cons.prems have none: "fs a = None" by (auto simp: is_dir_def)
    let ?fs1 = "fs(a \<mapsto> Dir)"
    have "\<forall>q\<in>set qs. q = [] \<or> ?fs1 q = None \<or> ?fs1 q = Some Dir"
      using Cons.prems by auto
    from Cons.IH[OF this]
    have ih: "snd (mkdirs ?fs1 qs) = None" "\<forall>q\<in>set qs. is_dir (fst (mkdirs ?fs1 qs)) q"
      by blast+
    have step: "mkdirs fs (a # qs) = mkdirs ?fs1 qs"
      using False none by simp
    have "is_dir ?fs1 a" by (simp add: is_dir_def)
    then have "is_dir (fst (mkdirs ?fs1 qs)) a" by (rule mkdirs_keeps_is_dir)
    with ih step show ?thesis by simp
  qed
qed

lemma mkdir_parents_creatable:
  assumes "creatable fs p"
  shows "snd (mkdir_parents fs (parent p)) = None"
    and "\<forall>q\<in>set (prefixes (parent p)). is_dir (fst (mkdir_parents fs (parent p))) q"
    and "\<not> is_dir (fst (mkdir_parents fs (parent p))) p"
    and "is_dir (fst (mkdir_parents fs (parent p))) (parent p)"
proof -
  let ?qs = "prefixes (parent p)"
  from assms have pre: "\<forall>q\<in>set ?qs. q = [] \<or> fs q = None \<or> fs q = Some Dir"
    and nd: "\<not> is_dir fs p"
    by (simp_all add: creatable_def list_all_iff)
  from mkdirs_ok [OF pre] show a: "snd (mkdir_parents fs (parent p)) = None"
    and b: "\<forall>q\<in>set ?qs. is_dir (fst (mkdir_parents fs (parent p))) q"
    by (simp_all add: mkdir_parents_def)
  from nd have "p \<noteq> []" by (simp add: is_dir_def)
  then have "\<not> prefix p (butlast p)"
    using prefix_length_le [of p "butlast p"] by (cases p rule: rev_cases) auto
  then have "p \<notin> set ?qs" by (simp add: parent_def)
  then have "fst (mkdir_parents fs (parent p)) p = fs p"
    by (simp add: mkdir_parents_def mkdirs_other)
  with nd show "\<not> is_dir (fst (mkdir_parents fs (parent p))) p"
    by (simp add: is_dir_def)
  from b show "is_dir (fst (mkdir_parents fs (parent p))) (parent p)"
    by simp
qed

lemma compress_pdf_extended_creatable:
  assumes c: "clone_from L (path_str inp) = Inr d"
    and dest: "creatable fs (Path out)"
    and w: "writer_write L (compress_stages L lossless quality d) = (bytes, None)"
  shows "snd (compress_pdf_extended L fs inp out lossless quality) = Inr ()"
    and "fst (compress_pdf_extended L fs inp out lossless quality) (Path out) = Some (File bytes)"
    and "\<forall>q\<in>set (prefixes (parent (Path out))).
           is_dir (fst (compress_pdf_extended L fs inp out lossless quality)) q"
proof -
  let ?p = "Path out"
  obtain fs1 where m: "mkdir_parents fs (parent ?p) = (fs1, None)"
    using mkdir_parents_creatable(1) [OF dest] by (cases "mkdir_parents fs (parent ?p)") simp
  from mkdir_parents_creatable(2-4) [OF dest] m
  have dirs: "\<forall>q\<in>set (prefixes (parent ?p)). is_dir fs1 q"
    and nd: "\<not> is_dir fs1 ?p" and pd: "is_dir fs1 (parent ?p)"
    by simp_all
  have run: "compress_pdf_extended L fs inp out lossless quality
               = ((fs1(?p \<mapsto> File []))(?p \<mapsto> File bytes), Inr ())"
    using c m w nd pd
    by (simp add: compress_pdf_extended_def write_to_def open_wb_def Let_def)
  show "snd (compress_pdf_extended L fs inp out lossless quality) = Inr ()"
    and "fst (compress_pdf_extended L fs inp out lossless quality) ?p = Some (File bytes)"
    by (simp_all add: run)
  show "\<forall>q\<in>set (prefixes (parent ?p)).
           is_dir (fst (compress_pdf_extended L fs inp out lossless quality)) q"
  proof
    fix q assume q: "q \<in> set (prefixes (parent ?p))"
    with dirs have "is_dir fs1 q" by blast
    moreover from this nd have "q \<noteq> ?p" by auto
    ultimately show "is_dir (fst (compress_pdf_extended L fs inp out lossless quality)) q"
      by (simp add: run is_dir_def)
  qed
qed

lemma builtin_open_wb_Inr:
  "builtin_open_wb fs s = Inr fs1 \<Longrightarrow>
     open_wb fs (Path s) = Inr fs1 \<and> fs1 = fs(Path s \<mapsto> File [])
     \<and> \<not> is_dir fs (Path s) \<and> is_dir fs (parent (Path s))"
  by (auto simp: builtin_open_wb_def open_wb_def Let_def split: if_splits option.splits)

lemma builtin_open_wb_plain:
  "s \<noteq> [] \<Longrightarrow> raw_last s \<noteq> ''.'' \<Longrightarrow> \<not> trailing_slash s \<Longrightarrow> Path s \<noteq> [] \<Longrightarrow>
   builtin_open_wb fs s = open_wb fs (Path s)"
  by (simp add: builtin_open_wb_def)

lemma compress_pages_map:
  "compress_pages L ps = map (\<lambda>p. fst (page_compress_content_streams L p 9)) ps"
  by (induction ps) (simp_all add: except_pass_fst)

lemma replace_images_foldl:
  "replace_images L n page imgs = foldl (\<lambda>p i. fst (img_replace L p i n)) page imgs"
  by (induction imgs arbitrary: page) (simp_all add: except_pass_fst)

lemma recompress_pages_closed:
  "fst (recompress_pages L n ps)
     = map (\<lambda>p. case getattr_images L p of
                    Inl e \<Rightarrow> p | Inr (imgs, r) \<Rightarrow> replace_images L n p imgs)
         (takeWhile (\<lambda>p. case getattr_images L p of
                              Inl e \<Rightarrow> False | Inr (imgs, r) \<Rightarrow> r = None) ps)
       @ (case dropWhile (\<lambda>p. case getattr_images L p of
                                   Inl e \<Rightarrow> False | Inr (imgs, r) \<Rightarrow> r = None) ps of
            [] \<Rightarrow> []
          | p # rest \<Rightarrow>
              (case getattr_images L p of
                 Inl e \<Rightarrow> p | Inr (imgs, r) \<Rightarrow> replace_images L n p imgs) # rest)"
  by (induction ps) (auto simp: Let_def split: sum.splits prod.splits option.splits)

lemma compress_stages_closed:
  "compress_stages L lossless quality d
     = fst (compress_identical_objects L
         (d\<lparr>pages :=
              (case quality of
                 None \<Rightarrow>
                   (if lossless
                    then map (\<lambda>p. fst (page_compress_content_streams L p 9)) (pages d)
                    else pages d)
               | Some q \<Rightarrow>
                   fst (recompress_pages L q
                     (if lossless
                      then map (\<lambda>p. fst (page_compress_content_streams L p 9)) (pages d)
                      else pages d)))\<rparr>))"
  by (cases quality) (simp_all add: compress_stages_def compress_pages_map except_pass_fst)

section \<open>The HTTP endpoint\<close>



section \<open>The command-line renderer\<close>




section \<open>The command lines of the two compressors\<close>

text \<open>
  Claim C9. When the extended compressor is given a third positional argument that
  \<^verbatim>\<open>int\<close> rejects, \<^verbatim>\<open>main\<close> ends with the uncaught \<^verbatim>\<open>ValueError\<close> of
  \<^verbatim>\<open>int(sys.argv[3])\<close> before the pipeline is called: the exit status is neither 0
  nor 2, no usage line (nothing at all) is printed, and the file system is unchanged.
\<close>

theorem main_extended_bad_quality:
  "3 < length argv \<Longrightarrow> py_int (argv ! 3) = Inl e \<Longrightarrow>
   main_extended L argv fs = (\<lparr>status = Uncaught e, stdout = [], stderr = []\<rparr>, fs)
   \<and> exn_class_of e = ValueError
   \<and> exit_status (status (fst (main_extended L argv fs))) \<noteq> 0
   \<and> exit_status (status (fst (main_extended L argv fs))) \<noteq> 2"
  by (simp add: main_extended_def py_int_ValueError)

theorem main_extended_bad_quality_witness:
  "3 < length [''pdf_compress.py'', ''in.pdf'', ''out.pdf'', ''high'']
   \<and> py_int ([''pdf_compress.py'', ''in.pdf'', ''out.pdf'', ''high''] ! 3)
       = Inl (Exn ValueError ''invalid literal for int() with base 10'')
   \<and> main_extended sample_pypdf [''pdf_compress.py'', ''in.pdf'', ''out.pdf'', ''high''] Map.empty
       = (\<lparr>status = Uncaught (Exn ValueError ''invalid literal for int() with base 10''),
           stdout = [], stderr = []\<rparr>, Map.empty)"
proof -
  have h1: "3 < length [''pdf_compress.py'', ''in.pdf'', ''out.pdf'', ''high'']" by simp
  have h2: "py_int ([''pdf_compress.py'', ''in.pdf'', ''out.pdf'', ''high''] ! 3)
       = Inl (Exn ValueError ''invalid literal for int() with base 10'')"
    by (simp add: py_int_def int_space_def isdigit_def)
  from main_extended_bad_quality [OF h1 h2, of sample_pypdf Map.empty] h1 h2
  show ?thesis by simp
qed

text \<open>
  Claim C6, as amended. \<^verbatim>\<open>main\<close> of compress\_pdf.py prints the usage line to the
  error stream and exits 1 whenever the number of arguments is not two (\<^verbatim>\<open>sys.argv\<close>
  does not have length 3), so with one argument and also with three. With exactly two
  arguments, a source that parses and a destination string that \<^verbatim>\<open>open\<close> accepts
  and the library can write, it exits 0 and the destination holds the written file.
\<close>

theorem main_basic_argument_count:
  "(length argv \<noteq> 3 \<longrightarrow>
      main_basic L argv fs = (\<lparr>status = Exit 1, stdout = [], stderr = [usage_basic]\<rparr>, fs))
   \<and> (\<forall>src fs1. length argv = 3 \<and> PdfReader L (argv ! 1) = Inr src
          \<and> builtin_open_wb fs (argv ! 2) = Inr fs1
          \<and> snd (writer_write L (fst (writer_compress_content_streams L
                   \<lparr>pages = src, others = []\<rparr>))) = None \<longrightarrow>
        main_basic L argv fs
          = (\<lparr>status = Exit 0, stdout = [], stderr = []\<rparr>,
             fs(Path (argv ! 2) \<mapsto> File (fst (writer_write L
                (fst (writer_compress_content_streams L \<lparr>pages = src, others = []\<rparr>)))))))"
  by (auto simp: main_basic_def compress_pdf_basic_def write_to_raw_def
      add_pages_PdfWriter except_pass_fst Let_def
      dest!: builtin_open_wb_Inr split: prod.splits sum.splits option.splits)

theorem main_basic_argument_count_witness:
  "main_basic sample_pypdf [''compress_pdf.py'', ''in.pdf''] Map.empty
     = (\<lparr>status = Exit 1, stdout = [], stderr = [usage_basic]\<rparr>, Map.empty)
   \<and> PdfReader sample_pypdf ''in.pdf'' = Inr [''one'', ''two'', ''three'']
   \<and> builtin_open_wb Map.empty ''out.pdf'' = Inr [[''out.pdf''] \<mapsto> File []]
   \<and> main_basic sample_pypdf [''compress_pdf.py'', ''in.pdf'', ''out.pdf''] Map.empty
     = (\<lparr>status = Exit 0, stdout = [], stderr = []\<rparr>,
        [[''out.pdf''] \<mapsto> File ''onetwothree''])"
proof -
  have a: "main_basic sample_pypdf [''compress_pdf.py'', ''in.pdf''] Map.empty
     = (\<lparr>status = Exit 1, stdout = [], stderr = [usage_basic]\<rparr>, Map.empty)"
    using main_basic_argument_count [of "[''compress_pdf.py'', ''in.pdf'']" sample_pypdf Map.empty,
        THEN conjunct1]
    by simp
  have r: "PdfReader sample_pypdf ''in.pdf'' = Inr [''one'', ''two'', ''three'']"
    by (simp add: sample_pypdf_def)
  have p: "Path ''out.pdf'' = [''out.pdf'']" by (simp add: Path_def)
  have o: "builtin_open_wb Map.empty ''out.pdf'' = Inr [[''out.pdf''] \<mapsto> File []]"
    by (simp add: builtin_open_wb_def raw_last_def trailing_slash_def open_wb_def p
        is_dir_def parent_def)
  have w: "writer_write sample_pypdf (fst (writer_compress_content_streams sample_pypdf
             \<lparr>pages = [''one'', ''two'', ''three''], others = []\<rparr>)) = (''onetwothree'', None)"
    by (simp add: sample_pypdf_def)
  have b: "main_basic sample_pypdf [''compress_pdf.py'', ''in.pdf'', ''out.pdf''] Map.empty
     = (\<lparr>status = Exit 0, stdout = [], stderr = []\<rparr>,
        [[''out.pdf''] \<mapsto> File ''onetwothree''])"
    using main_basic_argument_count
      [of "[''compress_pdf.py'', ''in.pdf'', ''out.pdf'']" sample_pypdf Map.empty,
        THEN conjunct2, rule_format,
        of "[''one'', ''two'', ''three'']" "[[''out.pdf''] \<mapsto> File []]"] r o w
    by (simp add: p)
  from a b r o show ?thesis by simp
qed

text \<open>
  The claim as first stated fails for three arguments after the script name: the source
  is valid, yet the exit code is 1 and only the usage line is printed.
\<close>

theorem main_basic_three_arguments_counterexample:
  "PdfReader sample_pypdf ''in.pdf'' = Inr [''one'', ''two'', ''three'']
   \<and> main_basic sample_pypdf [''compress_pdf.py'', ''in.pdf'', ''out.pdf'', ''third''] Map.empty
       = (\<lparr>status = Exit 1, stdout = [], stderr = [usage_basic]\<rparr>, Map.empty)"
  by (simp add: main_basic_def sample_pypdf_def)

text \<open>
  Claim C5. \<^verbatim>\<open>main\<close> of pdf\_compress.py exits with code 2 when fewer than two
  positional arguments are given. On a valid invocation (a source the library can clone,
  a destination that can be created, an image quality that is absent or an integer such
  as \<^verbatim>\<open>50\<close>, and a write that completes) it exits 0, the destination holds the
  written file, and every directory on the way to the destination exists afterwards,
  created where it was missing.
\<close>

theorem main_extended_cli:
  "(length argv < 3 \<longrightarrow>
      main_extended L argv fs
        = (\<lparr>status = Exit 2, stdout = [usage_extended], stderr = []\<rparr>, fs))
   \<and> (\<forall>d quality n.
        ((length argv = 3 \<and> quality = None)
          \<or> (3 < length argv \<and> py_int (argv ! 3) = Inr n \<and> quality = Some n))
        \<and> clone_from L (path_str (argv ! 1)) = Inr d
        \<and> creatable fs (Path (argv ! 2))
        \<and> snd (writer_write L (compress_stages L True quality d)) = None \<longrightarrow>
        fst (main_extended L argv fs) = \<lparr>status = Exit 0, stdout = [], stderr = []\<rparr>
        \<and> snd (main_extended L argv fs) (Path (argv ! 2))
            = Some (File (fst (writer_write L (compress_stages L True quality d))))
        \<and> (\<forall>q\<in>set (prefixes (parent (Path (argv ! 2)))).
              is_dir (snd (main_extended L argv fs)) q))"
proof (intro conjI allI impI)
  assume "length argv < 3"
  then show "main_extended L argv fs
        = (\<lparr>status = Exit 2, stdout = [usage_extended], stderr = []\<rparr>, fs)"
    by (simp add: main_extended_def)
next
  fix d quality n
  assume h: "((length argv = 3 \<and> quality = None)
          \<or> (3 < length argv \<and> py_int (argv ! 3) = Inr n \<and> quality = Some n))
        \<and> clone_from L (path_str (argv ! 1)) = Inr d
        \<and> creatable fs (Path (argv ! 2))
        \<and> snd (writer_write L (compress_stages L True quality d)) = None"
  let ?run = "compress_pdf_extended L fs (argv ! 1) (argv ! 2) True quality"
  obtain bytes where w: "writer_write L (compress_stages L True quality d) = (bytes, None)"
    using h by (cases "writer_write L (compress_stages L True quality d)") simp
  from h have c: "clone_from L (path_str (argv ! 1)) = Inr d" and dest: "creatable fs (Path (argv ! 2))"
    by simp_all
  note facts = compress_pdf_extended_creatable [OF c dest w]
  from h have m: "main_extended L argv fs
      = (case ?run of
           (fs1, Inl e) \<Rightarrow> (\<lparr>status = Uncaught e, stdout = [], stderr = []\<rparr>, fs1)
         | (fs1, Inr u) \<Rightarrow> (\<lparr>status = Exit 0, stdout = [], stderr = []\<rparr>, fs1))"
    by (auto simp: main_extended_def)
  obtain fs2 where r: "?run = (fs2, Inr ())"
    using facts(1) by (cases ?run) simp
  show "fst (main_extended L argv fs) = \<lparr>status = Exit 0, stdout = [], stderr = []\<rparr>"
    unfolding m r by simp
  show "snd (main_extended L argv fs) (Path (argv ! 2))
            = Some (File (fst (writer_write L (compress_stages L True quality d))))"
    using facts(2) unfolding m r w by simp
  show "\<forall>q\<in>set (prefixes (parent (Path (argv ! 2)))).
              is_dir (snd (main_extended L argv fs)) q"
    using facts(3) unfolding m r by simp
qed

theorem main_extended_cli_witness:
  "main_extended sample_pypdf [''pdf_compress.py''] Map.empty
     = (\<lparr>status = Exit 2, stdout = [usage_extended], stderr = []\<rparr>, Map.empty)
   \<and> main_extended sample_pypdf [''pdf_compress.py'', ''in.pdf''] Map.empty
     = (\<lparr>status = Exit 2, stdout = [usage_extended], stderr = []\<rparr>, Map.empty)
   \<and> py_int ''50'' = Inr 50
   \<and> clone_from sample_pypdf (path_str ''in.pdf'')
       = Inr \<lparr>pages = [''one'', ''two'', ''three''], others = [''outline'']\<rparr>
   \<and> creatable Map.empty (Path ''a/b/out.pdf'')
   \<and> fst (main_extended sample_pypdf [''pdf_compress.py'', ''in.pdf'', ''a/b/out.pdf'', ''50'']
            Map.empty)
       = \<lparr>status = Exit 0, stdout = [], stderr = []\<rparr>
   \<and> snd (main_extended sample_pypdf [''pdf_compress.py'', ''in.pdf'', ''a/b/out.pdf'', ''50'']
            Map.empty) [''a'', ''b'', ''out.pdf'']
       = Some (File ''zoneqtwozthree'')
   \<and> is_dir (snd (main_extended sample_pypdf
                    [''pdf_compress.py'', ''in.pdf'', ''a/b/out.pdf'', ''50''] Map.empty)) [''a'']
   \<and> is_dir (snd (main_extended sample_pypdf
                    [''pdf_compress.py'', ''in.pdf'', ''a/b/out.pdf'', ''50''] Map.empty))
         [''a'', ''b'']"
proof -
  let ?argv = "[''pdf_compress.py'', ''in.pdf'', ''a/b/out.pdf'', ''50'']"
  let ?d = "\<lparr>pages = [''one'', ''two'', ''three''], others = [''outline'']\<rparr>"
  have i: "py_int ''50'' = Inr 50"
    by (simp add: py_int_def int_space_def isdigit_def digit_value_def)
  have c: "clone_from sample_pypdf (path_str ''in.pdf'') = Inr ?d"
    by (simp add: sample_pypdf_def path_str_def Path_def)
  have p: "Path ''a/b/out.pdf'' = [''a'', ''b'', ''out.pdf'']"
    by (simp add: Path_def)
  have cr: "creatable Map.empty (Path ''a/b/out.pdf'')"
    by (simp add: p creatable_def is_dir_def parent_def)
  have st: "compress_stages sample_pypdf True (Some 50) ?d
              = \<lparr>pages = [''zoneq'', ''two'', ''zthree''], others = [''outline'']\<rparr>"
    by (simp add: compress_stages_def getattr_images_def except_pass_def sample_pypdf_def)
  have w: "writer_write sample_pypdf (compress_stages sample_pypdf True (Some 50) ?d)
             = (''zoneqtwozthree'', None)"
    by (simp add: st) (simp add: sample_pypdf_def)
  have a: "main_extended sample_pypdf [''pdf_compress.py''] Map.empty
     = (\<lparr>status = Exit 2, stdout = [usage_extended], stderr = []\<rparr>, Map.empty)"
    using main_extended_cli [of "[''pdf_compress.py'']" sample_pypdf Map.empty] by simp
  have b: "main_extended sample_pypdf [''pdf_compress.py'', ''in.pdf''] Map.empty
     = (\<lparr>status = Exit 2, stdout = [usage_extended], stderr = []\<rparr>, Map.empty)"
    using main_extended_cli [of "[''pdf_compress.py'', ''in.pdf'']" sample_pypdf Map.empty]
    by simp
  have "fst (main_extended sample_pypdf ?argv Map.empty)
          = \<lparr>status = Exit 0, stdout = [], stderr = []\<rparr>
        \<and> snd (main_extended sample_pypdf ?argv Map.empty) (Path (?argv ! 2))
            = Some (File (fst (writer_write sample_pypdf
                (compress_stages sample_pypdf True (Some 50) ?d))))
        \<and> (\<forall>q\<in>set (prefixes (parent (Path (?argv ! 2)))).
              is_dir (snd (main_extended sample_pypdf ?argv Map.empty)) q)"
    using main_extended_cli [of ?argv sample_pypdf Map.empty, THEN conjunct2, rule_format,
        of "Some 50" 50 ?d] i c cr w
    by simp
  then have "fst (main_extended sample_pypdf ?argv Map.empty)
          = \<lparr>status = Exit 0, stdout = [], stderr = []\<rparr>
        \<and> snd (main_extended sample_pypdf ?argv Map.empty) [''a'', ''b'', ''out.pdf'']
            = Some (File ''zoneqtwozthree'')
        \<and> is_dir (snd (main_extended sample_pypdf ?argv Map.empty)) [''a'']
        \<and> is_dir (snd (main_extended sample_pypdf ?argv Map.empty)) [''a'', ''b'']"
    by (simp add: p w parent_def)
  with a b i c cr show ?thesis by simp
qed

section \<open>The basic pipeline\<close>

text \<open>
  Claim C10. The basic pipeline never creates a directory: a run leaves the set of
  directories as it was. When the parent of the output path is not an existing directory
  the run raises and leaves the file system untouched, so no output is produced; for a
  source that parses, the exception is the \<^verbatim>\<open>FileNotFoundError\<close> of opening the
  destination.
\<close>

theorem compress_pdf_basic_no_mkdir:
  "(\<forall>q. fst (compress_pdf_basic L fs inp out) q = Some Dir \<longleftrightarrow> fs q = Some Dir)
   \<and> (\<not> is_dir fs (parent (Path out)) \<longrightarrow>
        fst (compress_pdf_basic L fs inp out) = fs
        \<and> (\<exists>e. snd (compress_pdf_basic L fs inp out) = Inl e)
        \<and> (\<forall>src. PdfReader L inp = Inr src \<and> fs (parent (Path out)) = None
                   \<and> fs (Path out) = None \<longrightarrow>
              snd (compress_pdf_basic L fs inp out)
                = Inl (Exn FileNotFoundError ''No such file or directory'')))"
  by (auto simp: compress_pdf_basic_def write_to_raw_def builtin_open_wb_def open_wb_def
      is_dir_def parent_def Let_def
      split: sum.splits prod.splits option.splits if_splits)

theorem compress_pdf_basic_no_mkdir_witness:
  "\<not> is_dir Map.empty (parent (Path ''a/b/out.pdf''))
   \<and> PdfReader sample_pypdf ''in.pdf'' = Inr [''one'', ''two'', ''three'']
   \<and> compress_pdf_basic sample_pypdf Map.empty ''in.pdf'' ''a/b/out.pdf''
       = (Map.empty, Inl (Exn FileNotFoundError ''No such file or directory''))"
proof -
  have p: "Path ''a/b/out.pdf'' = [''a'', ''b'', ''out.pdf'']"
    by (simp add: Path_def)
  have h: "\<not> is_dir Map.empty (parent (Path ''a/b/out.pdf''))"
    by (simp add: p parent_def is_dir_def)
  have r: "PdfReader sample_pypdf ''in.pdf'' = Inr [''one'', ''two'', ''three'']"
    by (simp add: sample_pypdf_def)
  from compress_pdf_basic_no_mkdir [of sample_pypdf Map.empty "''in.pdf''" "''a/b/out.pdf''"] h r
  have "fst (compress_pdf_basic sample_pypdf Map.empty ''in.pdf'' ''a/b/out.pdf'') = Map.empty
        \<and> snd (compress_pdf_basic sample_pypdf Map.empty ''in.pdf'' ''a/b/out.pdf'')
            = Inl (Exn FileNotFoundError ''No such file or directory'')"
    by simp
  with h r show ?thesis by (simp add: prod_eq_iff)
qed

text \<open>
  Claim C3. In the basic pipeline a failure to parse the source propagates, and so does a
  failure of \<^verbatim>\<open>open(output_path, 'wb')\<close> or of the write; whatever the single
  \<^verbatim>\<open>writer.compress_content_streams()\<close> call does, raise or return, the pipeline
  goes on and writes the document as that call left it (unchanged when the method does
  not exist).
\<close>

theorem compress_pdf_basic_error_policy:
  "(\<forall>e. PdfReader L inp = Inl e \<longrightarrow> compress_pdf_basic L fs inp out = (fs, Inl e))
   \<and> (\<forall>src w1 r e. PdfReader L inp = Inr src
          \<and> writer_compress_content_streams L \<lparr>pages = src, others = []\<rparr> = (w1, r)
          \<and> builtin_open_wb fs out = Inl e \<longrightarrow>
        compress_pdf_basic L fs inp out = (fs, Inl e))
   \<and> (\<forall>src w1 r fs1 bytes e. PdfReader L inp = Inr src
          \<and> writer_compress_content_streams L \<lparr>pages = src, others = []\<rparr> = (w1, r)
          \<and> builtin_open_wb fs out = Inr fs1 \<and> writer_write L w1 = (bytes, Some e) \<longrightarrow>
        compress_pdf_basic L fs inp out = (fs1(Path out \<mapsto> File bytes), Inl e))
   \<and> (\<forall>src w1 r fs1 bytes. PdfReader L inp = Inr src
          \<and> writer_compress_content_streams L \<lparr>pages = src, others = []\<rparr> = (w1, r)
          \<and> builtin_open_wb fs out = Inr fs1 \<and> writer_write L w1 = (bytes, None) \<longrightarrow>
        compress_pdf_basic L fs inp out = (fs1(Path out \<mapsto> File bytes), Inr ()))"
  by (auto simp: compress_pdf_basic_def write_to_raw_def add_pages_PdfWriter except_pass_fst)

theorem compress_pdf_basic_error_policy_witness:
  "PdfReader sample_pypdf ''gone.pdf'' = Inl (Exn FileNotFoundError ''No such file or directory'')
   \<and> compress_pdf_basic sample_pypdf Map.empty ''gone.pdf'' ''out.pdf''
       = (Map.empty, Inl (Exn FileNotFoundError ''No such file or directory''))
   \<and> PdfReader sample_pypdf ''in.pdf'' = Inr [''one'', ''two'', ''three'']
   \<and> writer_compress_content_streams sample_pypdf
         \<lparr>pages = [''one'', ''two'', ''three''], others = []\<rparr>
       = (\<lparr>pages = [''one'', ''two'', ''three''], others = []\<rparr>,
          Some (Exn AttributeError ''compress_content_streams''))
   \<and> builtin_open_wb Map.empty ''d/out.pdf''
       = Inl (Exn FileNotFoundError ''No such file or directory'')
   \<and> compress_pdf_basic sample_pypdf Map.empty ''in.pdf'' ''d/out.pdf''
       = (Map.empty, Inl (Exn FileNotFoundError ''No such file or directory''))
   \<and> builtin_open_wb Map.empty ''out.pdf/'' = Inl (Exn IsADirectoryError ''Is a directory'')
   \<and> compress_pdf_basic sample_pypdf Map.empty ''in.pdf'' ''out.pdf/''
       = (Map.empty, Inl (Exn IsADirectoryError ''Is a directory''))
   \<and> builtin_open_wb Map.empty [] = Inl (Exn FileNotFoundError ''No such file or directory'')
   \<and> compress_pdf_basic sample_pypdf Map.empty ''in.pdf'' []
       = (Map.empty, Inl (Exn FileNotFoundError ''No such file or directory''))
   \<and> builtin_open_wb Map.empty ''out.pdf'' = Inr [[''out.pdf''] \<mapsto> File []]
   \<and> compress_pdf_basic sample_pypdf Map.empty ''in.pdf'' ''out.pdf''
       = ([[''out.pdf''] \<mapsto> File ''onetwothree''], Inr ())
   \<and> compress_pdf_basic
            (sample_pypdf\<lparr>writer_write := \<lambda>w. (''%PDF'', Some (Exn LibraryError ''disk full''))\<rparr>)
            Map.empty ''in.pdf'' ''out.pdf''
       = ([[''out.pdf''] \<mapsto> File ''%PDF''], Inl (Exn LibraryError ''disk full''))"
proof -
  let ?src = "[''one'', ''two'', ''three'']"
  let ?w = "\<lparr>pages = ?src, others = ([] :: string list)\<rparr>"
  let ?ae = "Some (Exn AttributeError ''compress_content_streams'')"
  let ?full = "sample_pypdf\<lparr>writer_write := \<lambda>w. (''%PDF'', Some (Exn LibraryError ''disk full''))\<rparr>"
  have r0: "PdfReader sample_pypdf ''gone.pdf''
              = Inl (Exn FileNotFoundError ''No such file or directory'')"
    and r1: "PdfReader sample_pypdf ''in.pdf'' = Inr ?src"
    and c1: "writer_compress_content_streams sample_pypdf ?w = (?w, ?ae)"
    and w1: "writer_write sample_pypdf ?w = (''onetwothree'', None)"
    and r2: "PdfReader ?full ''in.pdf'' = Inr ?src"
    and c2: "writer_compress_content_streams ?full ?w = (?w, ?ae)"
    and w2: "writer_write ?full ?w = (''%PDF'', Some (Exn LibraryError ''disk full''))"
    by (simp_all add: sample_pypdf_def)
  note ev = builtin_open_wb_def raw_last_def trailing_slash_def open_wb_def Path_def
    is_dir_def parent_def
  have o1: "builtin_open_wb Map.empty ''d/out.pdf''
              = Inl (Exn FileNotFoundError ''No such file or directory'')"
    and o2: "builtin_open_wb Map.empty ''out.pdf'' = Inr [[''out.pdf''] \<mapsto> File []]"
    and o3: "builtin_open_wb Map.empty ''out.pdf/'' = Inl (Exn IsADirectoryError ''Is a directory'')"
    and o4: "builtin_open_wb Map.empty [] = Inl (Exn FileNotFoundError ''No such file or directory'')"
    by (simp_all add: ev)
  have p2: "Path ''out.pdf'' = [''out.pdf'']" by (simp add: Path_def)
  note t = compress_pdf_basic_error_policy
  have a: "compress_pdf_basic sample_pypdf Map.empty ''gone.pdf'' ''out.pdf''
       = (Map.empty, Inl (Exn FileNotFoundError ''No such file or directory''))"
    using t [of sample_pypdf "''gone.pdf''" Map.empty "''out.pdf''", THEN conjunct1] r0 by simp
  have b: "compress_pdf_basic sample_pypdf Map.empty ''in.pdf'' ''d/out.pdf''
       = (Map.empty, Inl (Exn FileNotFoundError ''No such file or directory''))"
    using t [of sample_pypdf "''in.pdf''" Map.empty "''d/out.pdf''", THEN conjunct2,
        THEN conjunct1, rule_format, of ?src ?w ?ae] r1 c1 o1 by simp
  have b2: "compress_pdf_basic sample_pypdf Map.empty ''in.pdf'' ''out.pdf/''
       = (Map.empty, Inl (Exn IsADirectoryError ''Is a directory''))"
    using t [of sample_pypdf "''in.pdf''" Map.empty "''out.pdf/''", THEN conjunct2,
        THEN conjunct1, rule_format, of ?src ?w ?ae] r1 c1 o3 by simp
  have b3: "compress_pdf_basic sample_pypdf Map.empty ''in.pdf'' []
       = (Map.empty, Inl (Exn FileNotFoundError ''No such file or directory''))"
    using t [of sample_pypdf "''in.pdf''" Map.empty "[]", THEN conjunct2,
        THEN conjunct1, rule_format, of ?src ?w ?ae] r1 c1 o4 by simp
  have c: "compress_pdf_basic sample_pypdf Map.empty ''in.pdf'' ''out.pdf''
       = ([[''out.pdf''] \<mapsto> File ''onetwothree''], Inr ())"
    using t [of sample_pypdf "''in.pdf''" Map.empty "''out.pdf''", THEN conjunct2,
        THEN conjunct2, THEN conjunct2, rule_format,
        of ?src ?w ?ae "[[''out.pdf''] \<mapsto> File []]" "''onetwothree''"] r1 c1 o2 w1
    by (simp add: p2)
  have d: "compress_pdf_basic ?full Map.empty ''in.pdf'' ''out.pdf''
       = ([[''out.pdf''] \<mapsto> File ''%PDF''], Inl (Exn LibraryError ''disk full''))"
    using t [of ?full "''in.pdf''" Map.empty "''out.pdf''", THEN conjunct2,
        THEN conjunct2, THEN conjunct1, rule_format,
        of ?src ?w ?ae "[[''out.pdf''] \<mapsto> File []]" "''%PDF''" "Exn LibraryError ''disk full''"]
      r2 c2 o2 w2
    by (simp add: p2)
  from a b b2 b3 c d r0 r1 c1 o1 o2 o3 o4 show ?thesis by simp
qed

text \<open>
  Claim C2. For a source that parses into N pages, the basic pipeline appends the pages
  to a fresh document in the source's order, and (the library's compression call keeping
  the decoded content of the pages, the destination string being accepted by
  \<^verbatim>\<open>open\<close>, the write completing) the document it writes, which is that fresh
  document after the compression call, has exactly N pages, the i-th with the decoded
  content of the i-th source page.
  \<open>decoded\<close> is any reading of a page's content after decompression.
\<close>

theorem compress_pdf_basic_pages:
  assumes "PdfReader L inp = Inr src"
    and "map decoded (pages (fst (writer_compress_content_streams L
            \<lparr>pages = src, others = []\<rparr>))) = map decoded src"
    and "builtin_open_wb fs out = Inr fs1"
    and "snd (writer_write L (fst (writer_compress_content_streams L
            \<lparr>pages = src, others = []\<rparr>))) = None"
  shows "pages (add_pages PdfWriter src) = src
     \<and> (\<exists>doc. doc = fst (writer_compress_content_streams L (add_pages PdfWriter src))
          \<and> compress_pdf_basic L fs inp out
                 = (fs(Path out \<mapsto> File (fst (writer_write L doc))), Inr ())
          \<and> length (pages doc) = length src
          \<and> (\<forall>i<length src. decoded (pages doc ! i) = decoded (src ! i)))"
proof -
  let ?doc = "fst (writer_compress_content_streams L \<lparr>pages = src, others = []\<rparr>)"
  have order: "pages (add_pages PdfWriter src) = src"
    by (simp add: add_pages_PdfWriter)
  have fs1: "fs1 = fs(Path out \<mapsto> File [])"
    using builtin_open_wb_Inr [OF assms(3)] by simp
  have run: "compress_pdf_basic L fs inp out
               = (fs(Path out \<mapsto> File (fst (writer_write L ?doc))), Inr ())"
    using assms(1,3,4)
    by (cases "writer_write L ?doc")
       (simp add: compress_pdf_basic_def write_to_raw_def add_pages_PdfWriter
          except_pass_fst fs1)
  from assms(2) have len: "length (pages ?doc) = length src"
    by (rule map_eq_imp_length_eq)
  have nth: "\<forall>i<length src. decoded (pages ?doc ! i) = decoded (src ! i)"
  proof (intro allI impI)
    fix i assume i: "i < length src"
    with len have "map decoded (pages ?doc) ! i = decoded (pages ?doc ! i)" by simp
    moreover from i have "map decoded src ! i = decoded (src ! i)" by simp
    ultimately show "decoded (pages ?doc ! i) = decoded (src ! i)"
      using assms(2) by simp
  qed
  from order run len nth show ?thesis by (simp add: add_pages_PdfWriter)
qed

theorem compress_pdf_basic_pages_witness:
  "PdfReader (sample_pypdf\<lparr>writer_compress_content_streams :=
        \<lambda>w. (w\<lparr>pages := map ((@) ''z'') (pages w)\<rparr>, None)\<rparr>) ''in.pdf''
     = Inr [''one'', ''two'', ''three'']
   \<and> builtin_open_wb Map.empty ''out.pdf'' = Inr [[''out.pdf''] \<mapsto> File []]
   \<and> compress_pdf_basic (sample_pypdf\<lparr>writer_compress_content_streams :=
        \<lambda>w. (w\<lparr>pages := map ((@) ''z'') (pages w)\<rparr>, None)\<rparr>) Map.empty ''in.pdf'' ''out.pdf''
     = ([[''out.pdf''] \<mapsto> File ''zoneztwozthree''], Inr ())
   \<and> map (dropWhile (\<lambda>c. c = CHR ''z'')) [''zone'', ''ztwo'', ''zthree'']
     = map (dropWhile (\<lambda>c. c = CHR ''z'')) [''one'', ''two'', ''three'']"
proof -
  let ?L = "sample_pypdf\<lparr>writer_compress_content_streams :=
        \<lambda>w. (w\<lparr>pages := map ((@) ''z'') (pages w)\<rparr>, None)\<rparr>"
  let ?src = "[''one'', ''two'', ''three'']"
  let ?dec = "dropWhile (\<lambda>c. c = CHR ''z'')"
  have r: "PdfReader ?L ''in.pdf'' = Inr ?src"
    by (simp add: sample_pypdf_def)
  have p: "Path ''out.pdf'' = [''out.pdf'']" by (simp add: Path_def)
  have o: "builtin_open_wb Map.empty ''out.pdf'' = Inr [[''out.pdf''] \<mapsto> File []]"
    by (simp add: builtin_open_wb_def raw_last_def trailing_slash_def open_wb_def p
        is_dir_def parent_def)
  have c: "fst (writer_compress_content_streams ?L \<lparr>pages = ?src, others = []\<rparr>)
             = \<lparr>pages = [''zone'', ''ztwo'', ''zthree''], others = []\<rparr>"
    by simp
  have m: "map ?dec (pages (fst (writer_compress_content_streams ?L
            \<lparr>pages = ?src, others = []\<rparr>))) = map ?dec ?src"
    by (simp add: c)
  have w: "snd (writer_write ?L (fst (writer_compress_content_streams ?L
            \<lparr>pages = ?src, others = []\<rparr>))) = None"
    by (simp add: sample_pypdf_def)
  have wb: "fst (writer_write ?L (fst (writer_compress_content_streams ?L
            (add_pages PdfWriter ?src)))) = ''zoneztwozthree''"
    by (simp add: add_page_def PdfWriter_def sample_pypdf_def)
  from compress_pdf_basic_pages [of ?L "''in.pdf''" ?src ?dec Map.empty "''out.pdf''", OF r m o w]
  have "compress_pdf_basic ?L Map.empty ''in.pdf'' ''out.pdf''
          = (Map.empty(Path ''out.pdf'' \<mapsto> File (fst (writer_write ?L
               (fst (writer_compress_content_streams ?L (add_pages PdfWriter ?src)))))), Inr ())"
    by blast
  then have "compress_pdf_basic ?L Map.empty ''in.pdf'' ''out.pdf''
     = ([[''out.pdf''] \<mapsto> File ''zoneztwozthree''], Inr ())"
    unfolding wb p by simp
  with r o show ?thesis by simp
qed

section \<open>The extended pipeline\<close>

text \<open>
  Claim C4. With the lossless flag off, no image quality, and a de-duplication call that
  is not supported (it raises and leaves the document as it was), the stages of the
  extended pipeline return the clone unchanged, also when run again, and the file written
  is the serialisation of the clone itself.
\<close>

theorem compress_pdf_extended_pass_through:
  assumes "clone_from L (path_str inp) = Inr d"
    and "compress_identical_objects L d = (d, Some e)"
  shows "compress_stages L False None d = d
     \<and> compress_stages L False None (compress_stages L False None d) = d
     \<and> (\<forall>bytes. creatable fs (Path out) \<and> writer_write L d = (bytes, None) \<longrightarrow>
          snd (compress_pdf_extended L fs inp out False None) = Inr ()
          \<and> fst (compress_pdf_extended L fs inp out False None) (Path out) = Some (File bytes))"
proof -
  have st: "compress_stages L False None d = d"
    using assms(2) by (simp add: compress_stages_def except_pass_def)
  show ?thesis
  proof (intro conjI allI impI)
    show "compress_stages L False None d = d" by (rule st)
    show "compress_stages L False None (compress_stages L False None d) = d"
      by (simp add: st)
  next
    fix bytes
    assume h: "creatable fs (Path out) \<and> writer_write L d = (bytes, None)"
    then have w: "writer_write L (compress_stages L False None d) = (bytes, None)"
      by (simp add: st)
    from h have cr: "creatable fs (Path out)" by simp
    from compress_pdf_extended_creatable(1,2) [OF assms(1) cr w]
    show "snd (compress_pdf_extended L fs inp out False None) = Inr ()"
      and "fst (compress_pdf_extended L fs inp out False None) (Path out) = Some (File bytes)"
      by simp_all
  qed
qed

theorem compress_pdf_extended_pass_through_witness:
  "clone_from sample_pypdf (path_str ''in.pdf'')
     = Inr \<lparr>pages = [''one'', ''two'', ''three''], others = [''outline'']\<rparr>
   \<and> compress_identical_objects sample_pypdf
        \<lparr>pages = [''one'', ''two'', ''three''], others = [''outline'']\<rparr>
     = (\<lparr>pages = [''one'', ''two'', ''three''], others = [''outline'']\<rparr>,
        Some (Exn AttributeError ''compress_identical_objects''))
   \<and> creatable Map.empty (Path ''out/copy.pdf'')
   \<and> compress_stages sample_pypdf False None
        \<lparr>pages = [''one'', ''two'', ''three''], others = [''outline'']\<rparr>
     = \<lparr>pages = [''one'', ''two'', ''three''], others = [''outline'']\<rparr>
   \<and> snd (compress_pdf_extended sample_pypdf Map.empty ''in.pdf'' ''out/copy.pdf'' False None)
     = Inr ()
   \<and> fst (compress_pdf_extended sample_pypdf Map.empty ''in.pdf'' ''out/copy.pdf'' False None)
        [''out'', ''copy.pdf'']
     = Some (File ''onetwothree'')"
proof -
  let ?d = "\<lparr>pages = [''one'', ''two'', ''three''], others = [''outline'']\<rparr>"
  have c: "clone_from sample_pypdf (path_str ''in.pdf'') = Inr ?d"
    and dd: "compress_identical_objects sample_pypdf ?d
               = (?d, Some (Exn AttributeError ''compress_identical_objects''))"
    and w: "writer_write sample_pypdf ?d = (''onetwothree'', None)"
    by (simp_all add: sample_pypdf_def path_str_def Path_def)
  have p: "Path ''out/copy.pdf'' = [''out'', ''copy.pdf'']" by (simp add: Path_def)
  have cr: "creatable Map.empty (Path ''out/copy.pdf'')"
    by (simp add: p creatable_def is_dir_def parent_def)
  from compress_pdf_extended_pass_through
    [OF c dd, of Map.empty "''out/copy.pdf''"] cr w c dd
  show ?thesis by (simp add: p)
qed

text \<open>
  Claim C1. In the extended pipeline every page's compression attempt is made and its own
  result kept, whatever the attempts on the other pages raise; every image a page yields
  is attempted, whatever the other attempts raise; a missing \<^verbatim>\<open>images\<close> attribute
  counts as no images; an exception of the image enumeration ends the image stage with
  the pages before it done and the pages after it untouched; and the de-duplication call
  receives the document these stages produced, its own exception being dropped as well.
  None of these exceptions reaches the caller. A failing clone propagates with nothing
  touched; a failing creation of the destination directory, a failing open and a failing
  write propagate; otherwise the pipeline returns normally and the destination holds what
  the library wrote of the document the stages produced. Nothing else makes it raise.
\<close>

theorem compress_pdf_extended_fault_tolerance:
  "compress_pages L ps = map (\<lambda>p. fst (page_compress_content_streams L p 9)) ps
   \<and> replace_images L n page imgs = foldl (\<lambda>p i. fst (img_replace L p i n)) page imgs
   \<and> (\<forall>m. page_images L page = Inl (Exn AttributeError m) \<longrightarrow>
          getattr_images L page = Inr ([], None))
   \<and> (\<forall>e. page_images L page = Inl e \<and> exn_class_of e \<noteq> AttributeError \<longrightarrow>
          getattr_images L page = Inl e)
   \<and> (\<forall>r. page_images L page = Inr r \<longrightarrow> getattr_images L page = Inr r)
   \<and> fst (recompress_pages L n ps)
       = map (\<lambda>p. case getattr_images L p of
                      Inl e \<Rightarrow> p | Inr (imgs, r) \<Rightarrow> replace_images L n p imgs)
           (takeWhile (\<lambda>p. case getattr_images L p of
                                Inl e \<Rightarrow> False | Inr (imgs, r) \<Rightarrow> r = None) ps)
         @ (case dropWhile (\<lambda>p. case getattr_images L p of
                                     Inl e \<Rightarrow> False | Inr (imgs, r) \<Rightarrow> r = None) ps of
              [] \<Rightarrow> []
            | p # rest \<Rightarrow>
                (case getattr_images L p of
                   Inl e \<Rightarrow> p | Inr (imgs, r) \<Rightarrow> replace_images L n p imgs) # rest)
   \<and> compress_stages L lossless quality d
       = fst (compress_identical_objects L
           (d\<lparr>pages :=
                (case quality of
                   None \<Rightarrow>
                     (if lossless
                      then map (\<lambda>p. fst (page_compress_content_streams L p 9)) (pages d)
                      else pages d)
                 | Some q \<Rightarrow>
                     fst (recompress_pages L q
                       (if lossless
                        then map (\<lambda>p. fst (page_compress_content_streams L p 9)) (pages d)
                        else pages d)))\<rparr>))
   \<and> (\<forall>e. clone_from L (path_str inp) = Inl e \<longrightarrow>
          compress_pdf_extended L fs inp out lossless quality = (fs, Inl e))
   \<and> (\<forall>w fs1 e. clone_from L (path_str inp) = Inr w
          \<and> mkdir_parents fs (parent (Path out)) = (fs1, Some e) \<longrightarrow>
          compress_pdf_extended L fs inp out lossless quality = (fs1, Inl e))
   \<and> (\<forall>w fs1 e. clone_from L (path_str inp) = Inr w
          \<and> mkdir_parents fs (parent (Path out)) = (fs1, None)
          \<and> open_wb fs1 (Path out) = Inl e \<longrightarrow>
          compress_pdf_extended L fs inp out lossless quality = (fs1, Inl e))
   \<and> (\<forall>w fs1 fs2 bytes e. clone_from L (path_str inp) = Inr w
          \<and> mkdir_parents fs (parent (Path out)) = (fs1, None)
          \<and> open_wb fs1 (Path out) = Inr fs2
          \<and> writer_write L (compress_stages L lossless quality w) = (bytes, Some e) \<longrightarrow>
          compress_pdf_extended L fs inp out lossless quality
            = (fs2(Path out \<mapsto> File bytes), Inl e))
   \<and> (\<forall>w fs1 fs2 bytes. clone_from L (path_str inp) = Inr w
          \<and> mkdir_parents fs (parent (Path out)) = (fs1, None)
          \<and> open_wb fs1 (Path out) = Inr fs2
          \<and> writer_write L (compress_stages L lossless quality w) = (bytes, None) \<longrightarrow>
          compress_pdf_extended L fs inp out lossless quality
            = (fs2(Path out \<mapsto> File bytes), Inr ()))
   \<and> (\<forall>e. snd (compress_pdf_extended L fs inp out lossless quality) = Inl e \<longrightarrow>
          clone_from L (path_str inp) = Inl e
          \<or> (\<exists>w. clone_from L (path_str inp) = Inr w
                \<and> (snd (mkdir_parents fs (parent (Path out))) = Some e
                    \<or> snd (mkdir_parents fs (parent (Path out))) = None
                       \<and> (open_wb (fst (mkdir_parents fs (parent (Path out)))) (Path out) = Inl e
                          \<or> snd (writer_write L (compress_stages L lossless quality w))
                              = Some e))))"
proof (intro conjI)
  show "compress_pages L ps = map (\<lambda>p. fst (page_compress_content_streams L p 9)) ps"
    by (rule compress_pages_map)
  show "replace_images L n page imgs = foldl (\<lambda>p i. fst (img_replace L p i n)) page imgs"
    by (rule replace_images_foldl)
  show "\<forall>m. page_images L page = Inl (Exn AttributeError m) \<longrightarrow>
          getattr_images L page = Inr ([], None)"
    by (simp add: getattr_images_def)
  show "\<forall>e. page_images L page = Inl e \<and> exn_class_of e \<noteq> AttributeError \<longrightarrow>
          getattr_images L page = Inl e"
    by (simp add: getattr_images_def)
  show "\<forall>r. page_images L page = Inr r \<longrightarrow> getattr_images L page = Inr r"
    by (simp add: getattr_images_def)
  show "fst (recompress_pages L n ps)
       = map (\<lambda>p. case getattr_images L p of
                      Inl e \<Rightarrow> p | Inr (imgs, r) \<Rightarrow> replace_images L n p imgs)
           (takeWhile (\<lambda>p. case getattr_images L p of
                                Inl e \<Rightarrow> False | Inr (imgs, r) \<Rightarrow> r = None) ps)
         @ (case dropWhile (\<lambda>p. case getattr_images L p of
                                     Inl e \<Rightarrow> False | Inr (imgs, r) \<Rightarrow> r = None) ps of
              [] \<Rightarrow> []
            | p # rest \<Rightarrow>
                (case getattr_images L p of
                   Inl e \<Rightarrow> p | Inr (imgs, r) \<Rightarrow> replace_images L n p imgs) # rest)"
    by (rule recompress_pages_closed)
  show "compress_stages L lossless quality d
       = fst (compress_identical_objects L
           (d\<lparr>pages :=
                (case quality of
                   None \<Rightarrow>
                     (if lossless
                      then map (\<lambda>p. fst (page_compress_content_streams L p 9)) (pages d)
                      else pages d)
                 | Some q \<Rightarrow>
                     fst (recompress_pages L q
                       (if lossless
                        then map (\<lambda>p. fst (page_compress_content_streams L p 9)) (pages d)
                        else pages d)))\<rparr>))"
    by (rule compress_stages_closed)
  show "\<forall>e. clone_from L (path_str inp) = Inl e \<longrightarrow>
          compress_pdf_extended L fs inp out lossless quality = (fs, Inl e)"
    by (simp add: compress_pdf_extended_def)
  show "\<forall>w fs1 e. clone_from L (path_str inp) = Inr w
          \<and> mkdir_parents fs (parent (Path out)) = (fs1, Some e) \<longrightarrow>
          compress_pdf_extended L fs inp out lossless quality = (fs1, Inl e)"
    by (simp add: compress_pdf_extended_def Let_def)
  show "\<forall>w fs1 e. clone_from L (path_str inp) = Inr w
          \<and> mkdir_parents fs (parent (Path out)) = (fs1, None)
          \<and> open_wb fs1 (Path out) = Inl e \<longrightarrow>
          compress_pdf_extended L fs inp out lossless quality = (fs1, Inl e)"
    by (simp add: compress_pdf_extended_def write_to_def Let_def)
  show "\<forall>w fs1 fs2 bytes e. clone_from L (path_str inp) = Inr w
          \<and> mkdir_parents fs (parent (Path out)) = (fs1, None)
          \<and> open_wb fs1 (Path out) = Inr fs2
          \<and> writer_write L (compress_stages L lossless quality w) = (bytes, Some e) \<longrightarrow>
          compress_pdf_extended L fs inp out lossless quality
            = (fs2(Path out \<mapsto> File bytes), Inl e)"
    by (simp add: compress_pdf_extended_def write_to_def Let_def)
  show "\<forall>w fs1 fs2 bytes. clone_from L (path_str inp) = Inr w
          \<and> mkdir_parents fs (parent (Path out)) = (fs1, None)
          \<and> open_wb fs1 (Path out) = Inr fs2
          \<and> writer_write L (compress_stages L lossless quality w) = (bytes, None) \<longrightarrow>
          compress_pdf_extended L fs inp out lossless quality
            = (fs2(Path out \<mapsto> File bytes), Inr ())"
    by (simp add: compress_pdf_extended_def write_to_def Let_def)
  show "\<forall>e. snd (compress_pdf_extended L fs inp out lossless quality) = Inl e \<longrightarrow>
          clone_from L (path_str inp) = Inl e
          \<or> (\<exists>w. clone_from L (path_str inp) = Inr w
                \<and> (snd (mkdir_parents fs (parent (Path out))) = Some e
                    \<or> snd (mkdir_parents fs (parent (Path out))) = None
                       \<and> (open_wb (fst (mkdir_parents fs (parent (Path out)))) (Path out) = Inl e
                          \<or> snd (writer_write L (compress_stages L lossless quality w))
                              = Some e)))"
    by (auto simp: compress_pdf_extended_def write_to_def Let_def
        split: sum.splits prod.splits option.splits)
qed

theorem compress_pdf_extended_fault_tolerance_witness:
  "page_compress_content_streams sample_pypdf ''two'' 9
     = (''two'', Some (Exn LibraryError ''bad stream''))
   \<and> compress_pages sample_pypdf [''one'', ''two'', ''three''] = [''zone'', ''two'', ''zthree'']
   \<and> img_replace sample_pypdf ''zone'' 0 50 = (''zone'', Some (Exn LibraryError ''no codec''))
   \<and> replace_images sample_pypdf 50 ''zone'' [0, 1] = ''zoneq''
   \<and> page_images sample_pypdf ''two'' = Inl (Exn AttributeError ''images'')
   \<and> getattr_images sample_pypdf ''two'' = Inr ([], None)
   \<and> fst (recompress_pages sample_pypdf 50 [''zone'', ''two'', ''zthree''])
       = [''zoneq'', ''two'', ''zthree'']
   \<and> compress_stages sample_pypdf True (Some 50)
          \<lparr>pages = [''one'', ''two'', ''three''], others = [''outline'']\<rparr>
       = \<lparr>pages = [''zoneq'', ''two'', ''zthree''], others = [''outline'']\<rparr>
   \<and> clone_from sample_pypdf (path_str ''gone.pdf'')
       = Inl (Exn FileNotFoundError ''No such file or directory'')
   \<and> compress_pdf_extended sample_pypdf Map.empty ''gone.pdf'' ''a/out.pdf'' True (Some 50)
       = (Map.empty, Inl (Exn FileNotFoundError ''No such file or directory''))
   \<and> clone_from sample_pypdf (path_str ''in.pdf'')
       = Inr \<lparr>pages = [''one'', ''two'', ''three''], others = [''outline'']\<rparr>
   \<and> mkdir_parents [[''a''] \<mapsto> File ''x''] (parent (Path ''a/out.pdf''))
       = ([[''a''] \<mapsto> File ''x''], Some (Exn FileExistsError ''File exists''))
   \<and> compress_pdf_extended sample_pypdf [[''a''] \<mapsto> File ''x''] ''in.pdf'' ''a/out.pdf''
         True (Some 50)
       = ([[''a''] \<mapsto> File ''x''], Inl (Exn FileExistsError ''File exists''))
   \<and> mkdir_parents [[''out''] \<mapsto> Dir] (parent (Path ''out'')) = ([[''out''] \<mapsto> Dir], None)
   \<and> open_wb [[''out''] \<mapsto> Dir] (Path ''out'') = Inl (Exn IsADirectoryError ''Is a directory'')
   \<and> compress_pdf_extended sample_pypdf [[''out''] \<mapsto> Dir] ''in.pdf'' ''out'' True (Some 50)
       = ([[''out''] \<mapsto> Dir], Inl (Exn IsADirectoryError ''Is a directory''))
   \<and> mkdir_parents Map.empty (parent (Path ''a/out.pdf'')) = ([[''a''] \<mapsto> Dir], None)
   \<and> open_wb [[''a''] \<mapsto> Dir] (Path ''a/out.pdf'')
       = Inr [[''a''] \<mapsto> Dir, [''a'', ''out.pdf''] \<mapsto> File []]
   \<and> compress_pdf_extended
         (sample_pypdf\<lparr>writer_write := \<lambda>w. (''%PDF'', Some (Exn LibraryError ''disk full''))\<rparr>)
         Map.empty ''in.pdf'' ''a/out.pdf'' True (Some 50)
       = ([[''a''] \<mapsto> Dir, [''a'', ''out.pdf''] \<mapsto> File ''%PDF''],
          Inl (Exn LibraryError ''disk full''))
   \<and> compress_pdf_extended sample_pypdf Map.empty ''in.pdf'' ''a/out.pdf'' True (Some 50)
       = ([[''a''] \<mapsto> Dir, [''a'', ''out.pdf''] \<mapsto> File ''zoneqtwozthree''], Inr ())"
proof -
  let ?d = "\<lparr>pages = [''one'', ''two'', ''three''], others = [''outline'']\<rparr>"
  let ?busy = "[[''a''] \<mapsto> File ''x'']"
  let ?isdir = "[[''out''] \<mapsto> Dir]"
  let ?fs1 = "[[''a''] \<mapsto> Dir]"
  let ?fs2 = "[[''a''] \<mapsto> Dir, [''a'', ''out.pdf''] \<mapsto> File []]"
  let ?full = "sample_pypdf\<lparr>writer_write := \<lambda>w. (''%PDF'', Some (Exn LibraryError ''disk full''))\<rparr>"
  note t = compress_pdf_extended_fault_tolerance
  have pc: "page_compress_content_streams sample_pypdf ''two'' 9
     = (''two'', Some (Exn LibraryError ''bad stream''))"
    and ir: "img_replace sample_pypdf ''zone'' 0 50
     = (''zone'', Some (Exn LibraryError ''no codec''))"
    and pi: "page_images sample_pypdf ''two'' = Inl (Exn AttributeError ''images'')"
    and c0: "clone_from sample_pypdf (path_str ''gone.pdf'')
       = Inl (Exn FileNotFoundError ''No such file or directory'')"
    and c1: "clone_from sample_pypdf (path_str ''in.pdf'') = Inr ?d"
    and c2: "clone_from ?full (path_str ''in.pdf'') = Inr ?d"
    by (simp_all add: sample_pypdf_def path_str_def Path_def)
  have p: "Path ''a/out.pdf'' = [''a'', ''out.pdf'']" and p': "Path ''out'' = [''out'']"
    by (simp_all add: Path_def)
  have mk: "mkdir_parents Map.empty (parent (Path ''a/out.pdf'')) = (?fs1, None)"
    and mk2: "mkdir_parents ?busy (parent (Path ''a/out.pdf''))
                = (?busy, Some (Exn FileExistsError ''File exists''))"
    and mk3: "mkdir_parents ?isdir (parent (Path ''out'')) = (?isdir, None)"
    by (simp_all add: p p' parent_def mkdir_parents_def is_dir_def)
  have op: "open_wb ?fs1 (Path ''a/out.pdf'') = Inr ?fs2"
    and op3: "open_wb ?isdir (Path ''out'') = Inl (Exn IsADirectoryError ''Is a directory'')"
    by (simp_all add: p p' open_wb_def parent_def is_dir_def)
  have cp: "compress_pages sample_pypdf [''one'', ''two'', ''three'']
              = [''zone'', ''two'', ''zthree'']"
    using t [where L = sample_pypdf and ps = "[''one'', ''two'', ''three'']", THEN conjunct1]
    by (simp add: sample_pypdf_def)
  have ri: "replace_images sample_pypdf 50 ''zone'' [0, 1] = ''zoneq''"
    using t [where L = sample_pypdf and n = 50 and page = "''zone''" and imgs = "[0, 1]",
        THEN conjunct2, THEN conjunct1]
    by (simp add: sample_pypdf_def)
  have ga: "getattr_images sample_pypdf ''two'' = Inr ([], None)"
    using t [where L = sample_pypdf and page = "''two''",
        THEN conjunct2, THEN conjunct2, THEN conjunct1, rule_format, of "''images''"] pi
    by simp
  have st: "compress_stages sample_pypdf True (Some 50) ?d
              = \<lparr>pages = [''zoneq'', ''two'', ''zthree''], others = [''outline'']\<rparr>"
    by (simp add: compress_stages_def getattr_images_def except_pass_def sample_pypdf_def)
  have rp: "fst (recompress_pages sample_pypdf 50 [''zone'', ''two'', ''zthree''])
       = [''zoneq'', ''two'', ''zthree'']"
    by (simp add: getattr_images_def except_pass_def sample_pypdf_def)
  have w: "writer_write sample_pypdf (compress_stages sample_pypdf True (Some 50) ?d)
             = (''zoneqtwozthree'', None)"
    by (simp add: st) (simp add: sample_pypdf_def)
  have w2: "writer_write ?full (compress_stages ?full True (Some 50) ?d)
             = (''%PDF'', Some (Exn LibraryError ''disk full''))"
    by simp
  have a: "compress_pdf_extended sample_pypdf Map.empty ''gone.pdf'' ''a/out.pdf'' True (Some 50)
       = (Map.empty, Inl (Exn FileNotFoundError ''No such file or directory''))"
    using t [where L = sample_pypdf and inp = "''gone.pdf''" and fs = Map.empty
        and out = "''a/out.pdf''" and lossless = True and quality = "Some 50",
        THEN conjunct2, THEN conjunct2, THEN conjunct2, THEN conjunct2,
        THEN conjunct2, THEN conjunct2, THEN conjunct2,
        THEN conjunct1] c0
    by simp
  have b: "compress_pdf_extended sample_pypdf ?busy ''in.pdf'' ''a/out.pdf'' True (Some 50)
       = (?busy, Inl (Exn FileExistsError ''File exists''))"
    using t [where L = sample_pypdf and inp = "''in.pdf''" and fs = ?busy
        and out = "''a/out.pdf''" and lossless = True and quality = "Some 50",
        THEN conjunct2, THEN conjunct2, THEN conjunct2, THEN conjunct2,
        THEN conjunct2, THEN conjunct2, THEN conjunct2,
        THEN conjunct2, THEN conjunct1, rule_format, of ?d ?busy "Exn FileExistsError ''File exists''"]
      c1 mk2
    by simp
  have c: "compress_pdf_extended sample_pypdf ?isdir ''in.pdf'' ''out'' True (Some 50)
       = (?isdir, Inl (Exn IsADirectoryError ''Is a directory''))"
    using t [where L = sample_pypdf and inp = "''in.pdf''" and fs = ?isdir
        and out = "''out''" and lossless = True and quality = "Some 50",
        THEN conjunct2, THEN conjunct2, THEN conjunct2, THEN conjunct2,
        THEN conjunct2, THEN conjunct2, THEN conjunct2,
        THEN conjunct2, THEN conjunct2, THEN conjunct1, rule_format,
        of ?d ?isdir "Exn IsADirectoryError ''Is a directory''"]
      c1 mk3 op3
    by simp
  have d: "compress_pdf_extended ?full Map.empty ''in.pdf'' ''a/out.pdf'' True (Some 50)
       = ([[''a''] \<mapsto> Dir, [''a'', ''out.pdf''] \<mapsto> File ''%PDF''],
          Inl (Exn LibraryError ''disk full''))"
    using t [where L = ?full and inp = "''in.pdf''" and fs = Map.empty
        and out = "''a/out.pdf''" and lossless = True and quality = "Some 50",
        THEN conjunct2, THEN conjunct2, THEN conjunct2, THEN conjunct2,
        THEN conjunct2, THEN conjunct2, THEN conjunct2,
        THEN conjunct2, THEN conjunct2, THEN conjunct2, THEN conjunct1, rule_format,
        of ?d ?fs1 ?fs2 "''%PDF''" "Exn LibraryError ''disk full''"]
      c2 mk op w2
    by (simp add: p)
  have e: "compress_pdf_extended sample_pypdf Map.empty ''in.pdf'' ''a/out.pdf'' True (Some 50)
       = ([[''a''] \<mapsto> Dir, [''a'', ''out.pdf''] \<mapsto> File ''zoneqtwozthree''], Inr ())"
    using t [where L = sample_pypdf and inp = "''in.pdf''" and fs = Map.empty
        and out = "''a/out.pdf''" and lossless = True and quality = "Some 50",
        THEN conjunct2, THEN conjunct2, THEN conjunct2, THEN conjunct2,
        THEN conjunct2, THEN conjunct2, THEN conjunct2,
        THEN conjunct2, THEN conjunct2, THEN conjunct2, THEN conjunct2, THEN conjunct1,
        rule_format, of ?d ?fs1 ?fs2 "''zoneqtwozthree''"]
      c1 mk op w
    by (simp add: p)
  from pc ir pi c0 c1 mk mk2 mk3 op op3 cp ri ga rp st a b c d e show ?thesis by simp
qed

end
